theory Spec2Isabelle
  imports Complex_Main
begin

section \<open>Strings, clock readings and numbers of the program\<close>

text \<open>
  A Python \<open>str\<close> is a sequence of Unicode code points, and the program's literals are
  Chinese, so a string is modelled as the list of its code points. Literals of the
  source are written out as code points, with the source text described beside them.
\<close>

type_synonym ustring = "nat list"

definition ascii :: "string \<Rightarrow> ustring" where
  "ascii s = map of_char s"

text \<open>
  \<open>str.isspace\<close> for one code point: the characters CPython treats as whitespace,
  which are the ones \<open>str.strip()\<close> without argument removes.
\<close>

definition isspace :: "nat \<Rightarrow> bool" where
  "isspace c =
     ((9 \<le> c \<and> c \<le> 13) \<or> (28 \<le> c \<and> c \<le> 32) \<or> c = 133 \<or> c = 160 \<or> c = 5760 \<or>
      (8192 \<le> c \<and> c \<le> 8202) \<or> c = 8232 \<or> c = 8233 \<or> c = 8239 \<or> c = 8287 \<or>
      c = 12288)"

text \<open>\<open>text.strip()\<close>: leading and trailing whitespace removed.\<close>

definition strip :: "ustring \<Rightarrow> ustring" where
  "strip s = rev (dropWhile isspace (rev (dropWhile isspace s)))"

text \<open>\<open>sub in text\<close> on strings: \<open>sub\<close> occurs as a contiguous run of \<open>text\<close>.\<close>

fun str_contains :: "ustring \<Rightarrow> ustring \<Rightarrow> bool" where
  "str_contains sub [] = (sub = [])"
| "str_contains sub (c # cs) = (take (length sub) (c # cs) = sub \<or> str_contains sub cs)"

text \<open>
  A reading of the clock (\<open>datetime.now()\<close>, or the \<open>datetime.time\<close> a time widget
  returns). Only the fields the program formats are kept.
\<close>

record time_of_day =
  hour :: nat
  minute :: nat
  second :: nat

definition two_digits :: "nat \<Rightarrow> ustring" where
  "two_digits n = [48 + n div 10, 48 + n mod 10]"

text \<open>\<open>strftime("%H:%M")\<close> and \<open>strftime("%H:%M:%S")\<close>; code point 58 is the colon.\<close>

definition strftime_HM :: "time_of_day \<Rightarrow> ustring" where
  "strftime_HM t = two_digits (hour t) @ [58] @ two_digits (minute t)"

definition strftime_HMS :: "time_of_day \<Rightarrow> ustring" where
  "strftime_HMS t = two_digits (hour t) @ [58] @ two_digits (minute t) @ [58] @ two_digits (second t)"

text \<open>
  The float literals of the source are stored and never computed with. Each is modelled
  by the rational number that the IEEE double of the literal denotes exactly.
\<close>

definition float_0_8 :: rat where
  "float_0_8 = 3602879701896397 / 4503599627370496"

definition float_0_65 :: rat where
  "float_0_65 = 5854679515581645 / 9007199254740992"

definition float_0_25 :: rat where
  "float_0_25 = 1 / 4"

definition float_0_1 :: rat where
  "float_0_1 = 3602879701896397 / 36028797018963968"

section \<open>The session state\<close>

datatype msg_type = User | System

record message =
  kind :: msg_type
  content :: ustring
  stamp :: ustring

datatype med_status = Pending | Done

record medication =
  med_name :: ustring
  med_time :: ustring
  status :: med_status

record user_profile =
  name :: ustring
  age :: int
  gender :: ustring
  medical_history :: "ustring list"

record node =
  ident :: ustring
  grp :: int

record link =
  source :: ustring
  target :: ustring
  val :: rat

record symptom_network =
  nodes :: "node list"
  links :: "link list"

text \<open>
  The \<open>data\<close> dictionary of a response, which becomes \<open>diagnosis_data\<close>. Both keys are
  read with \<open>.get(key, {})\<close>, so each may be absent (\<open>None\<close>); the empty dictionary has
  neither. A Python dictionary keeps insertion order, which the bar chart shows, so the
  probability table is an association list.
\<close>

record diagnosis =
  symptom_net :: "symptom_network option"
  probabilities :: "(ustring \<times> rat) list option"

definition empty_dict :: diagnosis where
  "empty_dict = \<lparr>symptom_net = None, probabilities = None\<rparr>"

text \<open>
  An audio chunk is what \<open>frame.to_ndarray()\<close> returns: a two-dimensional array, one row
  per plane, every row \<open>ncols\<close> samples wide.
\<close>

record ndarray =
  ncols :: nat
  rows :: "int list list"

text \<open>
  \<open>st.session_state\<close>. The key \<open>warning\<close> is not among the defaults and is read with
  \<open>.get('warning')\<close>: a missing key and the value \<open>None\<close> are both \<open>None\<close> here.
\<close>

record session =
  conversation :: "message list"
  profile :: user_profile
  diagnosis_data :: diagnosis
  medications :: "medication list"
  audio_buffer :: "ndarray list"
  warning :: "ustring option"

text \<open>The default gender is the string \<open>male\<close>.\<close>

definition session_defaults :: session where
  "session_defaults =
     \<lparr>conversation = [],
      profile = \<lparr>name = [], age = 30, gender = ascii ''male'', medical_history = []\<rparr>,
      diagnosis_data = empty_dict,
      medications = [],
      audio_buffer = [],
      warning = None\<rparr>"

text \<open>
  \<open>init_session_state\<close> sets every default whose key is missing. The five keys are only
  ever created together, by the first run: \<open>None\<close> is the session before that run.
\<close>

definition init_session_state :: "session option \<Rightarrow> session" where
  "init_session_state st = (case st of None \<Rightarrow> session_defaults | Some s \<Rightarrow> s)"

section \<open>The backend and one conversation turn\<close>

text \<open>
  Exceptions are values. \<open>KeyError\<close> is raised by \<open>response['answer']\<close> on a response
  without that key, \<open>ValueError\<close> by \<open>np.concatenate\<close>, \<open>NameError\<close> by a call of a name
  that is bound nowhere, \<open>AttributeError\<close> by the lookup of a name that a module does not
  define; the other two stand for what a real backend or transcription service raises.
\<close>

datatype py_error =
  KeyError | ValueError | NameError | AttributeError | TimeoutError | ConnectionError

text \<open>
  A response dictionary. \<open>answer\<close> is read with \<open>response['answer']\<close>, \<open>data\<close> with
  \<open>response.get('data', {})\<close> and \<open>warning\<close> with \<open>response.get('warning')\<close>; \<open>None\<close>
  is a missing key (for \<open>warning\<close> also the value \<open>None\<close>).
\<close>

record response =
  r_answer :: "ustring option"
  r_data :: "diagnosis option"
  r_warning :: "ustring option"

type_synonym backend = "ustring \<Rightarrow> py_error + response"

text \<open>
  The literals of \<open>get_ai_response\<close>, as code points: the two-character word for fever
  that triggers the warning, the text before and after the echoed input in the answer,
  the warning text, the two symptoms of the network (headache, fever) and the three
  diseases of the probability table (cold, influenza, migraine).
\<close>

definition fever :: ustring where
  "fever = [21457, 28909]"

definition answer_prefix :: ustring where
  "answer_prefix = [25910, 21040, 30151, 29366, 65306]"

definition answer_suffix :: ustring where
  "answer_suffix = [12290, 35831, 34917, 20805, 35828, 26126, 65306, 30140, 30171, 31243,
                    24230, 22914, 20309, 65311]"

definition warning_text :: ustring where
  "warning_text = [25345, 32493, 39640, 28909, 38656, 31435, 21363, 23601, 21307]"

definition headache :: ustring where
  "headache = [22836, 30171]"

definition cold :: ustring where
  "cold = [24863, 20882]"

definition influenza :: ustring where
  "influenza = [27969, 24863]"

definition migraine :: ustring where
  "migraine = [20559, 22836, 30171]"

definition mock_data :: diagnosis where
  "mock_data =
     \<lparr>symptom_net = Some
        \<lparr>nodes = [\<lparr>ident = headache, grp = 1\<rparr>, \<lparr>ident = fever, grp = 2\<rparr>],
         links = [\<lparr>source = headache, target = fever, val = float_0_8\<rparr>]\<rparr>,
      probabilities = Some
        [(cold, float_0_65), (influenza, float_0_25), (migraine, float_0_1)]\<rparr>"

definition get_ai_response :: "ustring \<Rightarrow> response" where
  "get_ai_response text =
     \<lparr>r_answer = Some (answer_prefix @ text @ answer_suffix),
      r_data = Some mock_data,
      r_warning = (if str_contains fever text then Some warning_text else None)\<rparr>"

text \<open>
  \<open>process_user_input\<close>, with the function bound to \<open>get_ai_response\<close> as a parameter
  (the source marks the mock as the place of a real service call, which can raise) and
  the two clock readings as parameters. The result is the exception that leaves the
  function, if any, and the session state as it is then: the appends and assignments
  before a raise stay done.
\<close>

definition process_user_input_with ::
  "backend \<Rightarrow> time_of_day \<Rightarrow> time_of_day \<Rightarrow> ustring \<Rightarrow> session \<Rightarrow> py_error option \<times> session" where
  "process_user_input_with ask now1 now2 text s =
     (if strip text \<noteq> [] then
        let s1 = s\<lparr>conversation := conversation s @
                     [\<lparr>kind = User, content = text, stamp = strftime_HMS now1\<rparr>]\<rparr>
        in (case ask text of
              Inl e \<Rightarrow> (Some e, s1)
            | Inr resp \<Rightarrow>
                (case r_answer resp of
                   None \<Rightarrow> (Some KeyError, s1)
                 | Some a \<Rightarrow>
                     (None,
                      s1\<lparr>conversation := conversation s1 @
                            [\<lparr>kind = System, content = a, stamp = strftime_HMS now2\<rparr>],
                         diagnosis_data := (case r_data resp of None \<Rightarrow> empty_dict | Some d \<Rightarrow> d),
                         warning := r_warning resp\<rparr>)))
      else (None, s))"

text \<open>The backend of the repository: the mock, which always returns.\<close>

definition mock_backend :: backend where
  "mock_backend text = Inr (get_ai_response text)"

definition process_user_input ::
  "time_of_day \<Rightarrow> time_of_day \<Rightarrow> ustring \<Rightarrow> session \<Rightarrow> py_error option \<times> session" where
  "process_user_input = process_user_input_with mock_backend"

text \<open>
  The alert of \<open>chat_interface\<close> is drawn under \<open>if st.session_state.get('warning')\<close>:
  a missing warning and the empty string are both false there.
\<close>

definition warning_shown :: "session \<Rightarrow> bool" where
  "warning_shown s = (case warning s of None \<Rightarrow> False | Some w \<Rightarrow> w \<noteq> [])"

text \<open>A call raises when an exception leaves it.\<close>

definition raises :: "py_error option \<times> session \<Rightarrow> bool" where
  "raises r = (fst r \<noteq> None)"

section \<open>Voice input\<close>

text \<open>\<open>audio_callback\<close> appends the array of the frame to the buffer.\<close>

definition audio_callback :: "ndarray \<Rightarrow> session \<Rightarrow> session" where
  "audio_callback audio_data s = s\<lparr>audio_buffer := audio_buffer s @ [audio_data]\<rparr>"

text \<open>
  \<open>np.concatenate\<close> with its default axis 0 stacks the rows of the arrays in order. It
  raises \<open>ValueError\<close> on an empty sequence, and when the arrays differ in width.
\<close>

definition np_concatenate :: "ndarray list \<Rightarrow> py_error + ndarray" where
  "np_concatenate arrs =
     (case arrs of
        [] \<Rightarrow> Inl ValueError
      | a # as \<Rightarrow>
          if list_all (\<lambda>b. ncols b = ncols a) as
          then Inr \<lparr>ncols = ncols a, rows = concat (map rows arrs)\<rparr>
          else Inl ValueError)"

text \<open>
  \<open>speech_to_text\<close> is called by the source and defined nowhere in the repository
  (the source notes that a real recognition service is to be connected), so it is a
  parameter. It returns the text, or nothing, or raises.
\<close>

type_synonym transcriber = "ndarray \<Rightarrow> py_error + ustring option"

text \<open>
  \<open>voice_input_component\<close>. Its first statement is the call of \<open>webrtc_streamer\<close>, with
  \<open>mode=av.AudioOnly\<close> among the arguments; \<open>ctx\<close> is the outcome of that statement: the
  exception that the evaluation of the call raises, or \<open>ctx.state.playing\<close> of the context
  it returns. \<open>clicked\<close> is the stop button. The buffer is cleared by the last statement,
  which a raise of an earlier one skips.
\<close>

definition voice_input_component_with ::
  "backend \<Rightarrow> transcriber \<Rightarrow> py_error + bool \<Rightarrow> bool \<Rightarrow> time_of_day \<Rightarrow> time_of_day \<Rightarrow>
   session \<Rightarrow> py_error option \<times> session" where
  "voice_input_component_with ask speech_to_text ctx clicked now1 now2 s =
     (case ctx of
        Inl e \<Rightarrow> (Some e, s)
      | Inr playing \<Rightarrow>
          if playing \<and> clicked then
            (case np_concatenate (audio_buffer s) of
               Inl e \<Rightarrow> (Some e, s)
             | Inr audio_array \<Rightarrow>
                 (case speech_to_text audio_array of
                    Inl e \<Rightarrow> (Some e, s)
                  | Inr text \<Rightarrow>
                      (case (case text of
                               None \<Rightarrow> (None, s)
                             | Some t \<Rightarrow>
                                 if t \<noteq> [] then process_user_input_with ask now1 now2 t s
                                 else (None, s)) of
                         (Some e, s') \<Rightarrow> (Some e, s')
                       | (None, s') \<Rightarrow> (None, s'\<lparr>audio_buffer := []\<rparr>))))
          else (None, s))"

text \<open>
  The repository as it stands. The module \<open>av\<close> (PyAV) defines no name \<open>AudioOnly\<close>, so
  the evaluation of the first statement raises \<open>AttributeError\<close> before the streamer is
  called; and the name \<open>speech_to_text\<close> is unbound, so a call of it raises.
\<close>

definition streamer_of_repository :: "py_error + bool" where
  "streamer_of_repository = Inl AttributeError"

definition speech_to_text_unbound :: transcriber where
  "speech_to_text_unbound audio_array = Inl NameError"

definition voice_input_component ::
  "bool \<Rightarrow> time_of_day \<Rightarrow> time_of_day \<Rightarrow> session \<Rightarrow> py_error option \<times> session" where
  "voice_input_component =
     voice_input_component_with mock_backend speech_to_text_unbound streamer_of_repository"

section \<open>Medication reminders and the profile\<close>

text \<open>
  The loop \<open>for idx, med in enumerate(st.session_state.medications)\<close>: the reminder
  whose button \<open>med_idx\<close> was clicked gets the status \<open>done\<close>.
\<close>

fun mark_clicked :: "(nat \<Rightarrow> bool) \<Rightarrow> nat \<Rightarrow> medication list \<Rightarrow> medication list" where
  "mark_clicked clicked idx [] = []"
| "mark_clicked clicked idx (med # meds) =
     (if clicked idx then med\<lparr>status := Done\<rparr> else med) # mark_clicked clicked (Suc idx) meds"

text \<open>
  \<open>medication_reminder\<close>: \<open>new_med\<close> and \<open>time_input\<close> are the values of the two
  widgets, \<open>add_clicked\<close> the add button and \<open>done_clicked\<close> the buttons of the rows.
\<close>

definition medication_reminder ::
  "ustring \<Rightarrow> time_of_day \<Rightarrow> bool \<Rightarrow> (nat \<Rightarrow> bool) \<Rightarrow> session \<Rightarrow> session" where
  "medication_reminder new_med time_input add_clicked done_clicked s =
     (let s1 = (if add_clicked
                then s\<lparr>medications := medications s @
                        [\<lparr>med_name = new_med, med_time = strftime_HM time_input,
                          status = Pending\<rparr>]\<rparr>
                else s)
      in s1\<lparr>medications := mark_clicked done_clicked 0 (medications s1)\<rparr>)"

definition no_click :: "nat \<Rightarrow> bool" where
  "no_click idx = False"

definition click_on :: "nat \<Rightarrow> nat \<Rightarrow> bool" where
  "click_on i idx = (idx = i)"

text \<open>The two operations of the tracker: a run with the add button, or one row button, clicked.\<close>

definition add_reminder :: "ustring \<Rightarrow> time_of_day \<Rightarrow> session \<Rightarrow> session" where
  "add_reminder new_med time_input s = medication_reminder new_med time_input True no_click s"

definition mark_done :: "ustring \<Rightarrow> time_of_day \<Rightarrow> nat \<Rightarrow> session \<Rightarrow> session" where
  "mark_done new_med time_input i s =
     medication_reminder new_med time_input False (click_on i) s"

text \<open>A string of the form \<open>HH:MM\<close> with an hour below 24 and a minute below 60.\<close>

definition is_digit :: "nat \<Rightarrow> bool" where
  "is_digit c = (48 \<le> c \<and> c \<le> 57)"

fun valid_hhmm :: "ustring \<Rightarrow> bool" where
  "valid_hhmm [h1, h2, c, m1, m2] =
     (is_digit h1 \<and> is_digit h2 \<and> c = 58 \<and> is_digit m1 \<and> is_digit m2 \<and>
      (h1 - 48) * 10 + (h2 - 48) < 24 \<and> (m1 - 48) * 10 + (m2 - 48) < 60)"
| "valid_hhmm s = False"

definition user_profile_section :: "ustring \<Rightarrow> int \<Rightarrow> ustring \<Rightarrow> bool \<Rightarrow> session \<Rightarrow> session" where
  "user_profile_section name_in age_in gender_in clicked s =
     (if clicked
      then s\<lparr>profile := (profile s)\<lparr>name := name_in, age := age_in, gender := gender_in\<rparr>\<rparr>
      else s)"

section \<open>One run of the script, and sessions\<close>

text \<open>
  What one run of the script reads from outside the session state: the values of the
  widgets and the buttons, the outcome of the streamer call, the behaviour of the
  backend and of the transcription service during the run, and the clock readings of
  the turn submitted by voice and of the turn sent from the chat box.
\<close>

record inputs =
  name_widget :: ustring
  age_widget :: int
  gender_widget :: ustring
  update_button :: bool
  new_med_widget :: ustring
  med_time_widget :: time_of_day
  add_button :: bool
  done_buttons :: "nat \<Rightarrow> bool"
  user_input :: ustring
  send_button :: bool
  streamer :: "py_error + bool"
  stop_button :: bool
  backend_now :: backend
  transcriber_now :: transcriber
  voice_now1 :: time_of_day
  voice_now2 :: time_of_day
  send_now1 :: time_of_day
  send_now2 :: time_of_day

text \<open>
  \<open>chat_interface\<close> calls \<open>voice_input_component\<close> and then tests the send button, so an
  exception of the voice component ends the run before the send button is looked at.
  The result is the state the function leaves, whether it returns or raises: the
  assignment to the key of the text widget after the turn, and the drawing code, do not
  touch this state.
\<close>

definition chat_interface :: "inputs \<Rightarrow> session \<Rightarrow> session" where
  "chat_interface w s =
     (case voice_input_component_with (backend_now w) (transcriber_now w) (streamer w)
             (stop_button w) (voice_now1 w) (voice_now2 w) s of
        (Some e, s') \<Rightarrow> s'
      | (None, s') \<Rightarrow>
          if send_button w
          then snd (process_user_input_with (backend_now w) (send_now1 w) (send_now2 w)
                 (user_input w) s')
          else s')"

text \<open>
  The state in which \<open>main\<close> enters \<open>chat_interface\<close>: after \<open>init_session_state\<close>,
  \<open>user_profile_section\<close> and \<open>medication_reminder\<close>. \<open>None\<close> is the session before its
  first run.
\<close>

definition before_chat :: "inputs \<Rightarrow> session option \<Rightarrow> session" where
  "before_chat w st =
     medication_reminder (new_med_widget w) (med_time_widget w) (add_button w) (done_buttons w)
       (user_profile_section (name_widget w) (age_widget w) (gender_widget w) (update_button w)
         (init_session_state st))"

definition main :: "inputs \<Rightarrow> session option \<Rightarrow> session" where
  "main w st = chat_interface w (before_chat w st)"




text \<open>
  The response that a turn of the code goes on with: the text is not blank, the backend
  returns, and the response has the key \<open>answer\<close>. This is the only test the code makes,
  so a response with an empty answer passes it.
\<close>

definition answered :: "backend \<Rightarrow> ustring \<Rightarrow> response option" where
  "answered ask text =
     (if strip text = [] then None
      else (case ask text of
              Inl e \<Rightarrow> None
            | Inr resp \<Rightarrow> (if r_answer resp = None then None else Some resp)))"





text \<open>The data section of a response: \<open>response.get('data', {})\<close>.\<close>

definition data_of :: "response \<Rightarrow> diagnosis" where
  "data_of resp = (case r_data resp of None \<Rightarrow> empty_dict | Some d \<Rightarrow> d)"

text \<open>Every probability of a table lies between 0 and 1.\<close>

definition probs_in_range :: "diagnosis \<Rightarrow> bool" where
  "probs_in_range d =
     (case probabilities d of
        None \<Rightarrow> True
      | Some ps \<Rightarrow> list_all (\<lambda>kv. 0 \<le> snd kv \<and> snd kv \<le> 1) ps)"

section \<open>Concrete inputs\<close>

text \<open>
  Two clock readings, the two texts of the spec's scenarios (a headache of three days
  with fever; a slight cough), and two audio chunks of one plane of two samples.
\<close>

definition clock1 :: time_of_day where
  "clock1 = \<lparr>hour = 8, minute = 5, second = 9\<rparr>"

definition clock2 :: time_of_day where
  "clock2 = \<lparr>hour = 8, minute = 5, second = 10\<rparr>"

definition fever_text :: ustring where
  "fever_text = [22836, 30171, 19977, 22825, 65292, 20276, 26377, 21457, 28909]"

definition cough_text :: ustring where
  "cough_text = [36731, 24494, 21683, 22013]"

definition chunk_a :: ndarray where
  "chunk_a = \<lparr>ncols = 2, rows = [[1, 2]]\<rparr>"

definition chunk_b :: ndarray where
  "chunk_b = \<lparr>ncols = 2, rows = [[3, 4]]\<rparr>"

text \<open>A backend that times out, and responses a backend may send.\<close>

definition failing_backend :: backend where
  "failing_backend text = Inl TimeoutError"

definition out_of_range_backend :: backend where
  "out_of_range_backend text =
     Inr \<lparr>r_answer = Some (ascii ''ok''),
          r_data = Some \<lparr>symptom_net = None, probabilities = Some [(cold, 3 / 2)]\<rparr>,
          r_warning = None\<rparr>"

definition empty_warning_backend :: backend where
  "empty_warning_backend text =
     Inr \<lparr>r_answer = Some (ascii ''ok''), r_data = None, r_warning = Some []\<rparr>"

text \<open>A transcription service that hears the slight cough.\<close>

definition transcribe_cough :: transcriber where
  "transcribe_cough audio_array = Inr (Some cough_text)"

text \<open>Eight o'clock, and a session with two reminders at that time.\<close>

definition eight :: time_of_day where
  "eight = \<lparr>hour = 8, minute = 0, second = 0\<rparr>"

definition two_reminders :: session where
  "two_reminders =
     add_reminder (ascii ''B'') eight (add_reminder (ascii ''A'') eight session_defaults)"

text \<open>A session in which two chunks were recorded, and a chunk of another width.\<close>

definition recorded :: session where
  "recorded = audio_callback chunk_b (audio_callback chunk_a session_defaults)"

definition chunk_wide :: ndarray where
  "chunk_wide = \<lparr>ncols = 3, rows = [[5, 6, 7]]\<rparr>"

text \<open>
  A run in which nothing is clicked and the streamer call returns an idle context; a
  run in which a text is sent from the chat box to a backend; a run in which a reminder
  named A is added.
\<close>

definition idle :: inputs where
  "idle =
     \<lparr>name_widget = [], age_widget = 30, gender_widget = [30007], update_button = False,
      new_med_widget = [], med_time_widget = eight, add_button = False,
      done_buttons = no_click, user_input = [], send_button = False,
      streamer = Inr False, stop_button = False, backend_now = mock_backend,
      transcriber_now = transcribe_cough, voice_now1 = clock1, voice_now2 = clock2,
      send_now1 = clock1, send_now2 = clock2\<rparr>"

definition sending :: "backend \<Rightarrow> ustring \<Rightarrow> inputs" where
  "sending ask text = idle\<lparr>user_input := text, send_button := True, backend_now := ask\<rparr>"





section \<open>Blank and non-blank texts\<close>

lemma strip_empty_iff: "strip s = [] \<longleftrightarrow> list_all isspace s"
  unfolding strip_def
  by (induction s) (auto simp: dropWhile_eq_Nil_conv list_all_iff)

lemma strip_blank: "strip [32, 32, 32] = []"
  by (simp add: strip_def isspace_def)

lemma strip_cough: "strip cough_text \<noteq> []"
  by (simp add: strip_def isspace_def cough_text_def)

lemma strip_fever: "strip fever_text \<noteq> []"
  by (simp add: strip_def isspace_def fever_text_def)

section \<open>One conversation turn\<close>

text \<open>
  Claim C1, as the code has it. A text whose stripped form is empty is skipped by the
  guard \<open>if text.strip():\<close>: the call returns normally, as a processed turn does, with
  no exception of any kind, and the whole session state is as it was, so the
  conversation, the diagnosis data and the warning are unchanged. This holds whatever
  the backend is, since the backend is not called.
\<close>

theorem blank_input_is_ignored:
  "strip text = [] \<Longrightarrow> process_user_input_with ask now1 now2 text s = (None, s)"
  by (simp add: process_user_input_with_def)

text \<open>Three spaces, sent to the repository's backend in a fresh session.\<close>

theorem blank_input_is_ignored_witness:
  "strip [32, 32, 32] = [] \<and>
   process_user_input_with mock_backend clock1 clock2 [32, 32, 32] session_defaults =
     (None, session_defaults)"
  using blank_input_is_ignored [of "[32, 32, 32]" mock_backend clock1 clock2 session_defaults]
  by (simp add: strip_blank)

text \<open>
  The empty text is not rejected: no exception leaves \<open>process_user_input\<close>, so the
  caller is not told of an empty input.
\<close>

theorem empty_input_not_rejected:
  "\<not> raises (process_user_input clock1 clock2 [] session_defaults)"
  by (simp add: raises_def process_user_input_def process_user_input_with_def strip_def)

text \<open>
  Claim C2. A turn succeeds when the text is not blank and the backend returns a
  response that has an answer. The call then returns normally; the conversation is the
  old one followed by exactly two messages, the user's with the submitted text and then
  the system's with the answer of the response; the diagnosis data is the data section
  of the response and the warning is the warning of the response, whatever both were
  before.
\<close>

theorem successful_turn:
  assumes "strip text \<noteq> []" and "ask text = Inr resp" and "r_answer resp = Some a"
  shows "process_user_input_with ask now1 now2 text s =
     (None, s\<lparr>conversation := conversation s @
                 [\<lparr>kind = User, content = text, stamp = strftime_HMS now1\<rparr>,
                  \<lparr>kind = System, content = a, stamp = strftime_HMS now2\<rparr>],
              diagnosis_data := data_of resp,
              warning := r_warning resp\<rparr>)"
  using assms by (simp add: process_user_input_with_def data_of_def)

text \<open>The scenario of the headache with fever, against the repository's backend.\<close>

theorem successful_turn_witness:
  "strip fever_text \<noteq> [] \<and> mock_backend fever_text = Inr (get_ai_response fever_text) \<and>
   r_answer (get_ai_response fever_text) = Some (answer_prefix @ fever_text @ answer_suffix) \<and>
   process_user_input_with mock_backend clock1 clock2 fever_text session_defaults =
     (None, session_defaults\<lparr>conversation := conversation session_defaults @
                 [\<lparr>kind = User, content = fever_text, stamp = strftime_HMS clock1\<rparr>,
                  \<lparr>kind = System, content = answer_prefix @ fever_text @ answer_suffix,
                    stamp = strftime_HMS clock2\<rparr>],
              diagnosis_data := data_of (get_ai_response fever_text),
              warning := r_warning (get_ai_response fever_text)\<rparr>)"
proof -
  have h1: "strip fever_text \<noteq> []" by (rule strip_fever)
  have h2: "mock_backend fever_text = Inr (get_ai_response fever_text)"
    by (simp add: mock_backend_def)
  have h3: "r_answer (get_ai_response fever_text) =
      Some (answer_prefix @ fever_text @ answer_suffix)"
    by (simp add: get_ai_response_def)
  from successful_turn [of fever_text mock_backend _ _ clock1 clock2 session_defaults,
      OF h1 h2 h3] h1 h2 h3
  show ?thesis by blast
qed

text \<open>
  Claim C3, as the code has it. \<open>process_user_input\<close> has no \<open>try\<close>: when the call of
  the backend raises, or the response has no answer (\<open>response['answer']\<close> raises
  \<open>KeyError\<close>), the exception leaves the function. No system message is written. The
  user's message was appended before the call and stays, so the conversation has grown
  by exactly that message; the diagnosis data, the warning and the rest of the state
  are as before the turn.
\<close>

theorem backend_failure_propagates:
  "(strip text \<noteq> [] \<and> ask text = Inl e \<longrightarrow>
      process_user_input_with ask now1 now2 text s =
        (Some e, s\<lparr>conversation := conversation s @
                      [\<lparr>kind = User, content = text, stamp = strftime_HMS now1\<rparr>]\<rparr>)) \<and>
   (strip text \<noteq> [] \<and> ask text = Inr resp \<and> r_answer resp = None \<longrightarrow>
      process_user_input_with ask now1 now2 text s =
        (Some KeyError, s\<lparr>conversation := conversation s @
                      [\<lparr>kind = User, content = text, stamp = strftime_HMS now1\<rparr>]\<rparr>))"
  by (simp add: process_user_input_with_def)

text \<open>The slight cough, sent to a backend that times out.\<close>

theorem backend_failure_propagates_witness:
  "strip cough_text \<noteq> [] \<and> failing_backend cough_text = Inl TimeoutError \<and>
   process_user_input_with failing_backend clock1 clock2 cough_text session_defaults =
     (Some TimeoutError,
      session_defaults\<lparr>conversation := conversation session_defaults @
         [\<lparr>kind = User, content = cough_text, stamp = strftime_HMS clock1\<rparr>]\<rparr>)"
  using backend_failure_propagates
    [of cough_text failing_backend TimeoutError clock1 clock2 session_defaults]
  by (simp add: strip_cough failing_backend_def)

text \<open>
  The failure is a hard error of the call, and the conversation ends with the user's
  message: no system message tells of the failure.
\<close>

theorem backend_failure_not_caught:
  "raises (process_user_input_with failing_backend clock1 clock2 cough_text session_defaults) \<and>
   conversation
     (snd (process_user_input_with failing_backend clock1 clock2 cough_text session_defaults)) =
     [\<lparr>kind = User, content = cough_text, stamp = strftime_HMS clock1\<rparr>]"
  by (simp add: raises_def process_user_input_with_def strip_cough failing_backend_def
      session_defaults_def)

section \<open>The mock backend\<close>

lemma str_contains_iff: "str_contains sub s \<longleftrightarrow> (\<exists>p q. s = p @ sub @ q)"
proof (induction s)
  case Nil
  then show ?case by auto
next
  case (Cons c cs)
  have here: "take (length sub) (c # cs) = sub \<longleftrightarrow> (\<exists>q. c # cs = sub @ q)"
    by (metis append_eq_conv_conj)
  have split: "(\<exists>p q. c # cs = p @ sub @ q) \<longleftrightarrow>
      (\<exists>q. c # cs = sub @ q) \<or> (\<exists>p q. cs = p @ sub @ q)"
  proof
    assume "\<exists>p q. c # cs = p @ sub @ q"
    then obtain p q where pq: "c # cs = p @ sub @ q" by blast
    show "(\<exists>q. c # cs = sub @ q) \<or> (\<exists>p q. cs = p @ sub @ q)"
    proof (cases p)
      case Nil
      with pq show ?thesis by auto
    next
      case (Cons x p')
      with pq have "cs = p' @ sub @ q" by simp
      then show ?thesis by blast
    qed
  next
    assume "(\<exists>q. c # cs = sub @ q) \<or> (\<exists>p q. cs = p @ sub @ q)"
    then show "\<exists>p q. c # cs = p @ sub @ q"
    proof
      assume "\<exists>q. c # cs = sub @ q"
      then obtain q where "c # cs = [] @ sub @ q" by auto
      then show ?thesis by blast
    next
      assume "\<exists>p q. cs = p @ sub @ q"
      then obtain p q where "cs = p @ sub @ q" by blast
      then have "c # cs = (c # p) @ sub @ q" by simp
      then show ?thesis by blast
    qed
  qed
  show ?case using Cons.IH here split by simp
qed

text \<open>
  Claim C10. For every pair of input texts the mock backend returns the same data
  section, the fixed symptom network and probability table, so the data does not depend
  on the input. The answer is the fixed prefix, the input verbatim, and the fixed
  suffix. The warning is present exactly when the input contains the word for fever as
  a contiguous run, and is then the fixed warning text.
\<close>

theorem mock_backend_depends_on_input_only_in_answer_and_warning:
  "r_data (get_ai_response text1) = r_data (get_ai_response text2) \<and>
   r_data (get_ai_response text1) = Some mock_data \<and>
   r_answer (get_ai_response text1) = Some (answer_prefix @ text1 @ answer_suffix) \<and>
   ((r_warning (get_ai_response text1) \<noteq> None) = (\<exists>p q. text1 = p @ fever @ q)) \<and>
   r_warning (get_ai_response text1) =
     (if \<exists>p q. text1 = p @ fever @ q then Some warning_text else None)"
  by (simp add: get_ai_response_def str_contains_iff)

text \<open>The two scenario texts: the same data, a warning for the first only.\<close>

theorem mock_backend_depends_on_input_only_in_answer_and_warning_witness:
  "r_data (get_ai_response fever_text) = r_data (get_ai_response cough_text) \<and>
   r_answer (get_ai_response fever_text) = Some (answer_prefix @ fever_text @ answer_suffix) \<and>
   r_warning (get_ai_response fever_text) = Some warning_text \<and>
   r_warning (get_ai_response cough_text) = None"
proof -
  have a: "str_contains fever fever_text"
    by (simp add: fever_def fever_text_def)
  have b: "\<not> str_contains fever cough_text"
    by (simp add: fever_def cough_text_def)
  from mock_backend_depends_on_input_only_in_answer_and_warning [of fever_text cough_text]
    mock_backend_depends_on_input_only_in_answer_and_warning [of cough_text fever_text]
    a b
  show ?thesis by (simp add: str_contains_iff)
qed

section \<open>Medication reminders\<close>

lemma mark_clicked_no_click: "mark_clicked no_click idx meds = meds"
  by (induction meds arbitrary: idx) (simp_all add: no_click_def)

lemma mark_clicked_idem:
  "mark_clicked clicked idx (mark_clicked clicked idx meds) = mark_clicked clicked idx meds"
  by (induction meds arbitrary: idx) simp_all

lemma mark_clicked_before: "i < idx \<Longrightarrow> mark_clicked (click_on i) idx meds = meds"
  by (induction meds arbitrary: idx) (simp_all add: click_on_def)

lemma mark_clicked_click_on:
  "idx \<le> i \<Longrightarrow> i - idx < length meds \<Longrightarrow>
   mark_clicked (click_on i) idx meds = meds[i - idx := (meds ! (i - idx))\<lparr>status := Done\<rparr>]"
proof (induction meds arbitrary: idx)
  case Nil
  then show ?case by simp
next
  case (Cons med meds)
  show ?case
  proof (cases "i = idx")
    case True
    then show ?thesis by (simp add: click_on_def mark_clicked_before [unfolded click_on_def])
  next
    case False
    with Cons.prems have le: "Suc idx \<le> i" and lt: "i - Suc idx < length meds" by auto
    from False le have eq: "i - idx = Suc (i - Suc idx)" by simp
    from Cons.IH [OF le lt] False show ?thesis
      by (simp add: eq click_on_def)
  qed
qed

lemma strftime_HM_valid:
  assumes "hour t < 24" and "minute t < 60"
  shows "valid_hhmm (strftime_HM t)"
proof -
  have "hour t div 10 \<le> 9" and "minute t div 10 \<le> 9" using assms by linarith+
  moreover have "hour t mod 10 \<le> 9" and "minute t mod 10 \<le> 9" by linarith+
  moreover have "hour t div 10 * 10 + hour t mod 10 = hour t"
    and "minute t div 10 * 10 + minute t mod 10 = minute t" by simp_all
  ultimately show ?thesis using assms
    by (auto simp: strftime_HM_def two_digits_def is_digit_def)
qed

lemma two_reminders_medications:
  "medications two_reminders =
     [\<lparr>med_name = [65], med_time = [48, 56, 58, 48, 48], status = Pending\<rparr>,
      \<lparr>med_name = [66], med_time = [48, 56, 58, 48, 48], status = Pending\<rparr>]"
  by (simp add: two_reminders_def add_reminder_def medication_reminder_def
      mark_clicked_no_click session_defaults_def strftime_HM_def two_digits_def eight_def
      ascii_def)

text \<open>
  Claim C6, as the code has it. The add button appends without any check, so adding a
  reminder never fails: for every name, the empty one included, and every time of the
  time widget, the list of medications is the old one followed by exactly one
  medication with that name, the time formatted as hours and minutes, and the status
  pending; nothing else of the state changes. The time is never an invalid string: it
  is formatted from a time of day, whose hour is below 24 and minute below 60, and the
  result is then a valid \<open>HH:MM\<close> string.
\<close>

theorem add_reminder_always_appends:
  "add_reminder new_med time_input s =
     s\<lparr>medications := medications s @
          [\<lparr>med_name = new_med, med_time = strftime_HM time_input, status = Pending\<rparr>]\<rparr> \<and>
   (hour time_input < 24 \<and> minute time_input < 60 \<longrightarrow> valid_hhmm (strftime_HM time_input))"
  by (simp add: add_reminder_def medication_reminder_def mark_clicked_no_click
      strftime_HM_valid)

text \<open>A reminder named A at eight o'clock, in a fresh session.\<close>

theorem add_reminder_always_appends_witness:
  "hour eight < 24 \<and> minute eight < 60 \<and> valid_hhmm (strftime_HM eight) \<and>
   medications (add_reminder [65] eight session_defaults) =
     [\<lparr>med_name = [65], med_time = [48, 56, 58, 48, 48], status = Pending\<rparr>]"
  using add_reminder_always_appends [of "[65]" eight session_defaults]
  by (simp add: eight_def session_defaults_def strftime_HM_def two_digits_def)

text \<open>
  The scenario of the spec: a reminder with the empty name at eight o'clock is not
  refused. The list, empty before, has the new reminder.
\<close>

theorem empty_name_is_added:
  "medications session_defaults = [] \<and>
   medications (add_reminder [] eight session_defaults) =
     [\<lparr>med_name = [], med_time = [48, 56, 58, 48, 48], status = Pending\<rparr>]"
  by (simp add: add_reminder_def medication_reminder_def mark_clicked_no_click
      session_defaults_def strftime_HM_def two_digits_def eight_def)

text \<open>
  Claim C8. Marking a reminder done is idempotent: for a valid index, two runs of the
  panel with the button of that row clicked leave exactly the state that one run
  leaves. The second run is an ordinary run, not an error: the function is total and
  returns a state. One run sets the status of that row to done and changes no other
  row.
\<close>

theorem mark_done_idempotent:
  assumes "i < length (medications s)"
  shows "mark_done new_med time_input i (mark_done new_med time_input i s) =
           mark_done new_med time_input i s \<and>
         medications (mark_done new_med time_input i s) =
           (medications s)[i := (medications s ! i)\<lparr>status := Done\<rparr>]"
proof
  show "mark_done new_med time_input i (mark_done new_med time_input i s) =
          mark_done new_med time_input i s"
    by (simp add: mark_done_def medication_reminder_def mark_clicked_idem)
  show "medications (mark_done new_med time_input i s) =
          (medications s)[i := (medications s ! i)\<lparr>status := Done\<rparr>]"
    using assms mark_clicked_click_on [of 0 i "medications s"]
    by (simp add: mark_done_def medication_reminder_def)
qed

text \<open>The second of two reminders, marked twice.\<close>

theorem mark_done_idempotent_witness:
  "1 < length (medications two_reminders) \<and>
   mark_done [] eight 1 (mark_done [] eight 1 two_reminders) =
     mark_done [] eight 1 two_reminders \<and>
   medications (mark_done [] eight 1 two_reminders) =
     [\<lparr>med_name = [65], med_time = [48, 56, 58, 48, 48], status = Pending\<rparr>,
      \<lparr>med_name = [66], med_time = [48, 56, 58, 48, 48], status = Done\<rparr>]"
proof -
  have h: "1 < length (medications two_reminders)"
    by (simp add: two_reminders_medications)
  from mark_done_idempotent [OF h, of "[]" eight] h show ?thesis
    by (simp add: two_reminders_medications)
qed

section \<open>What a turn stores\<close>

lemma turn_diagnosis:
  "diagnosis_data (snd (process_user_input_with ask now1 now2 text s)) =
     (case answered ask text of None \<Rightarrow> diagnosis_data s | Some resp \<Rightarrow> data_of resp)"
  by (auto simp: process_user_input_with_def answered_def data_of_def Let_def
      split: sum.splits option.splits)

lemma mock_data_in_range: "probs_in_range mock_data"
  by (simp add: probs_in_range_def mock_data_def float_0_65_def float_0_25_def float_0_1_def)

lemma mock_answered:
  "answered mock_backend text =
     (if strip text = [] then None else Some (get_ai_response text))"
  by (simp add: answered_def mock_backend_def get_ai_response_def)

lemma cough_has_no_fever: "\<not> (\<exists>p q. cough_text = p @ fever @ q)"
proof -
  have "\<not> str_contains fever cough_text"
    by (simp add: fever_def cough_text_def)
  then show ?thesis by (simp add: str_contains_iff)
qed

text \<open>
  Claim C4, as the code has it. Nothing clamps: a successful turn stores the data
  section of the response exactly as the backend sent it, every probability with the
  value it came with. With the backend of the repository every stored probability lies
  between 0 and 1, because the mock's table is the constant 0.65, 0.25, 0.1: a turn
  against it keeps every probability of the diagnosis data in that range.
\<close>

theorem probabilities_stored_as_sent:
  "(strip text \<noteq> [] \<and> ask text = Inr resp \<and> r_answer resp = Some a \<longrightarrow>
      diagnosis_data (snd (process_user_input_with ask now1 now2 text s)) = data_of resp) \<and>
   (probs_in_range (diagnosis_data s) \<longrightarrow>
      probs_in_range (diagnosis_data (snd (process_user_input now1 now2 text s))))"
proof
  show "strip text \<noteq> [] \<and> ask text = Inr resp \<and> r_answer resp = Some a \<longrightarrow>
      diagnosis_data (snd (process_user_input_with ask now1 now2 text s)) = data_of resp"
    by (simp add: process_user_input_with_def data_of_def)
  show "probs_in_range (diagnosis_data s) \<longrightarrow>
      probs_in_range (diagnosis_data (snd (process_user_input now1 now2 text s)))"
    by (simp add: process_user_input_def turn_diagnosis mock_answered data_of_def
        get_ai_response_def mock_data_in_range)
qed

text \<open>The headache with fever, against the repository's backend, in a fresh session.\<close>

theorem probabilities_stored_as_sent_witness:
  "strip fever_text \<noteq> [] \<and> mock_backend fever_text = Inr (get_ai_response fever_text) \<and>
   r_answer (get_ai_response fever_text) = Some (answer_prefix @ fever_text @ answer_suffix) \<and>
   probs_in_range (diagnosis_data session_defaults) \<and>
   diagnosis_data (snd (process_user_input_with mock_backend clock1 clock2 fever_text
     session_defaults)) = mock_data \<and>
   probs_in_range
     (diagnosis_data (snd (process_user_input clock1 clock2 fever_text session_defaults)))"
  using probabilities_stored_as_sent
    [of fever_text mock_backend "get_ai_response fever_text"
        "answer_prefix @ fever_text @ answer_suffix" clock1 clock2 session_defaults]
  by (simp add: strip_fever mock_backend_def get_ai_response_def data_of_def
      session_defaults_def empty_dict_def probs_in_range_def)

text \<open>
  A backend that sends the probability 1.5: the value is stored as it is, outside the
  range.
\<close>

theorem out_of_range_probability_is_stored:
  "\<not> probs_in_range
      (diagnosis_data
        (snd (process_user_input_with out_of_range_backend clock1 clock2 cough_text
          session_defaults)))"
  by (simp add: process_user_input_with_def strip_cough out_of_range_backend_def
      probs_in_range_def)

text \<open>
  Claim C5, as the code has it. The warning of the response is stored unchanged: a
  response without a warning leaves the stored warning absent (\<open>None\<close>), and an empty
  string is stored as the empty string; nothing is normalised and no text stands for
  the absence. Both are false under the test that draws the alert, so in both cases no
  warning is shown. In particular a turn whose text does not contain the word for fever,
  against the repository's backend, leaves the warning absent.
\<close>

theorem warning_is_stored_as_sent:
  "(strip text \<noteq> [] \<and> ask text = Inr resp \<and> r_answer resp = Some a \<longrightarrow>
      warning (snd (process_user_input_with ask now1 now2 text s)) = r_warning resp \<and>
      (r_warning resp = None \<or> r_warning resp = Some [] \<longrightarrow>
         \<not> warning_shown (snd (process_user_input_with ask now1 now2 text s)))) \<and>
   (strip text \<noteq> [] \<and> \<not> (\<exists>p q. text = p @ fever @ q) \<longrightarrow>
      warning (snd (process_user_input now1 now2 text s)) = None)"
proof
  show "strip text \<noteq> [] \<and> ask text = Inr resp \<and> r_answer resp = Some a \<longrightarrow>
      warning (snd (process_user_input_with ask now1 now2 text s)) = r_warning resp \<and>
      (r_warning resp = None \<or> r_warning resp = Some [] \<longrightarrow>
         \<not> warning_shown (snd (process_user_input_with ask now1 now2 text s)))"
    by (auto simp: process_user_input_with_def warning_shown_def)
  show "strip text \<noteq> [] \<and> \<not> (\<exists>p q. text = p @ fever @ q) \<longrightarrow>
      warning (snd (process_user_input now1 now2 text s)) = None"
    by (simp add: process_user_input_def process_user_input_with_def mock_backend_def
        get_ai_response_def str_contains_iff)
qed

text \<open>The slight cough, against the repository's backend, in a fresh session.\<close>

theorem warning_is_stored_as_sent_witness:
  "strip cough_text \<noteq> [] \<and> mock_backend cough_text = Inr (get_ai_response cough_text) \<and>
   r_answer (get_ai_response cough_text) = Some (answer_prefix @ cough_text @ answer_suffix) \<and>
   r_warning (get_ai_response cough_text) = None \<and>
   \<not> (\<exists>p q. cough_text = p @ fever @ q) \<and>
   warning (snd (process_user_input clock1 clock2 cough_text session_defaults)) = None \<and>
   \<not> warning_shown
      (snd (process_user_input_with mock_backend clock1 clock2 cough_text session_defaults))"
proof -
  have h1: "strip cough_text \<noteq> []" by (rule strip_cough)
  have h2: "mock_backend cough_text = Inr (get_ai_response cough_text)"
    by (simp add: mock_backend_def)
  have h3: "r_answer (get_ai_response cough_text) =
      Some (answer_prefix @ cough_text @ answer_suffix)"
    by (simp add: get_ai_response_def)
  have h4: "r_warning (get_ai_response cough_text) = None"
    using cough_has_no_fever by (simp add: get_ai_response_def str_contains_iff)
  from warning_is_stored_as_sent
    [of cough_text mock_backend "get_ai_response cough_text"
        "answer_prefix @ cough_text @ answer_suffix" clock1 clock2 session_defaults]
    h1 h2 h3 h4 cough_has_no_fever
  show ?thesis by blast
qed

text \<open>
  A backend that sends the empty string as warning: the stored warning is that empty
  string. It is neither absent nor a text saying that no warning is active.
\<close>

theorem empty_warning_is_not_normalised:
  "warning (snd (process_user_input_with empty_warning_backend clock1 clock2 cough_text
     session_defaults)) \<noteq> None \<and>
   warning (snd (process_user_input_with empty_warning_backend clock1 clock2 cough_text
     session_defaults)) \<noteq> Some (ascii ''no active warning'')"
  by (simp add: process_user_input_with_def strip_cough empty_warning_backend_def ascii_def)

section \<open>Stopping the recorder\<close>






text \<open>
  The repository as it stands never reaches the stop handler: the streamer statement
  raises on every call, and the state stays as it is.
\<close>

lemma voice_input_component_of_repository:
  "voice_input_component clicked now1 now2 s = (Some AttributeError, s)"
  by (simp add: voice_input_component_def voice_input_component_with_def
      streamer_of_repository_def)


lemma recorded_buffer: "audio_buffer recorded = [chunk_a, chunk_b]"
  by (simp add: recorded_def audio_callback_def session_defaults_def)





text \<open>A third chunk of another width: the concatenation raises and nothing changes.\<close>

lemma other_width_raises:
  "voice_input_component_with mock_backend transcribe_cough (Inr True) True clock1 clock2
     (audio_callback chunk_wide recorded) =
     (Some ValueError, audio_callback chunk_wide recorded)"
  by (simp add: voice_input_component_with_def audio_callback_def recorded_buffer
      np_concatenate_def chunk_a_def chunk_b_def chunk_wide_def)

section \<open>The diagnosis data over a session\<close>








lemma before_chat_sending: "before_chat (sending ask text) st = init_session_state st"
  by (simp add: before_chat_def sending_def idle_def medication_reminder_def
      user_profile_section_def mark_clicked_no_click)


lemma main_sending:
  "main (sending ask text) st =
     snd (process_user_input_with ask clock1 clock2 text (init_session_state st))"
  by (simp add: main_def before_chat_sending)
     (simp add: chat_interface_def sending_def idle_def voice_input_component_with_def)












text \<open>
  With the streamer of the repository the voice component raises in every run, so the
  send button is never looked at and no turn is processed.
\<close>

lemma chat_interface_of_repository:
  "streamer w = streamer_of_repository \<Longrightarrow> chat_interface w s = s"
  by (simp add: chat_interface_def voice_input_component_with_def streamer_of_repository_def)

end
